theory Spec2Isabelle
  imports Main
begin

section \<open>The build-script generator of \<^verbatim>\<open>shells/abstract.go\<close>\<close>

text \<open>
  The generator never produces script text itself: every effect of its three entry
  points is a call on a \<^verbatim>\<open>ShellWriter\<close>. The embedding records those calls, in order,
  as a list of instructions, so a function that writes to \<^verbatim>\<open>w\<close> becomes a function
  that returns what it wrote and sequencing becomes list append. Go strings are byte
  strings, as \<^typ>\<open>string\<close> is here.
\<close>

subsection \<open>Data\<close>

text \<open>
  A value of Go's empty interface, as far as the generator inspects one: the feature
  configurations held in \<^verbatim>\<open>Build.Options\<close> and the arguments of the formatted
  output calls. A Go map is an association list read with \<^const>\<open>map_of\<close>.
\<close>

datatype iface =
    INil
  | IString string
  | IBool bool
  | IInt int
  | ISlice "iface list"
  | IMap "(string \<times> iface) list"

record BuildVariable =
  Key :: string
  Value :: string
  Public :: bool
  Internal :: bool
  File :: bool

text \<open>
  One constructor for each method of \<^verbatim>\<open>ShellWriter\<close> that writes (\<^verbatim>\<open>Absolute\<close>
  only returns a path and the generator never calls it). The formatted calls keep the
  format string and its arguments apart, as the source passes them.
\<close>

datatype instr =
    Variable BuildVariable
  | Command string "string list"
  | Line string
  | IfDirectory string
  | IfFile string
  | Else
  | EndIf
  | Cd string
  | RmDir string
  | RmFile string
  | Print string "iface list"
  | Notice string "iface list"
  | Warning string "iface list"
  | Error string "iface list"
  | EmptyLine

record RunnerConfig =
  URL :: string
  DisableVerbose :: "bool option"

record ArtifactsInfo =
  Filename :: string

text \<open>A dependency (\<^verbatim>\<open>common.BuildInfo\<close>); \<^verbatim>\<open>Artifacts\<close> is a pointer that may be nil.\<close>

record BuildInfo =
  ID :: int
  Name :: string
  Token :: string
  Artifacts :: "ArtifactsInfo option"

datatype network = NetworkClient

text \<open>
  The build (\<^verbatim>\<open>common.Build\<close>, declared outside \<^verbatim>\<open>shells/abstract.go\<close>). The fields
  \<open>FullProjectDir\<close>, \<open>GetAllVariables\<close>, \<open>CacheFile\<close> and \<open>CacheFileForRef\<close> hold what
  the methods of these names return: the generator only reads their results.
  \<open>Network\<close> is compared with nil by the source, so it is an option. \<open>Runner\<close> is
  dereferenced without a check; the data model gives every build its owning runner
  configuration, so the record holds it by value. \<open>ID\<close> is a Go \<^verbatim>\<open>int\<close> that is only
  printed, never computed with.
\<close>

record Build =
  RepoURL :: string
  Sha :: string
  RefName :: string
  AllowGitFetch :: bool
  Commands :: string
  Options :: "(string \<times> iface) list"
  DependsOnBuilds :: "BuildInfo list"
  Network :: "network option"
  Token :: string
  ID :: int
  Runner :: RunnerConfig
  TLSCAChain :: string
  FullProjectDir :: string
  GetAllVariables :: "BuildVariable list"
  CacheFile :: string
  CacheFileForRef :: "string \<Rightarrow> string"

record ShellScriptInfo =
  Build :: Build
  RunnerCommand :: string

datatype panic = SliceBoundsOutOfRange

subsection \<open>The standard library functions the generator calls\<close>

text \<open>\<^verbatim>\<open>strings.Split(s, sep)\<close> for a one-byte separator: always at least one piece.\<close>

fun Split :: "string \<Rightarrow> char \<Rightarrow> string list" where
  "Split [] sep = [[]]"
| "Split (c # cs) sep =
     (if c = sep then [] # Split cs sep
      else (case Split cs sep of [] \<Rightarrow> [[c]] | p # ps \<Rightarrow> (c # p) # ps))"

text \<open>\<^verbatim>\<open>strings.Join(elems, sep)\<close>.\<close>

fun Join :: "string list \<Rightarrow> string \<Rightarrow> string" where
  "Join [] sep = []"
| "Join [e] sep = e"
| "Join (e # es) sep = e @ sep @ Join es sep"

text \<open>
  The UTF-8 encodings of the runes for which \<^verbatim>\<open>unicode.IsSpace\<close> holds: tab, line feed,
  vertical tab, form feed, carriage return, space, U+0085, U+00A0, U+1680,
  U+2000 to U+200A, U+2028, U+2029, U+202F, U+205F and U+3000.
\<close>

definition space_runes :: "string list" where
  "space_runes =
    [[CHR 0x09], [CHR 0x0A], [CHR 0x0B], [CHR 0x0C], [CHR 0x0D], [CHR 0x20],
     [CHR 0xC2, CHR 0x85], [CHR 0xC2, CHR 0xA0],
     [CHR 0xE1, CHR 0x9A, CHR 0x80],
     [CHR 0xE2, CHR 0x80, CHR 0x80], [CHR 0xE2, CHR 0x80, CHR 0x81],
     [CHR 0xE2, CHR 0x80, CHR 0x82], [CHR 0xE2, CHR 0x80, CHR 0x83],
     [CHR 0xE2, CHR 0x80, CHR 0x84], [CHR 0xE2, CHR 0x80, CHR 0x85],
     [CHR 0xE2, CHR 0x80, CHR 0x86], [CHR 0xE2, CHR 0x80, CHR 0x87],
     [CHR 0xE2, CHR 0x80, CHR 0x88], [CHR 0xE2, CHR 0x80, CHR 0x89],
     [CHR 0xE2, CHR 0x80, CHR 0x8A],
     [CHR 0xE2, CHR 0x80, CHR 0xA8], [CHR 0xE2, CHR 0x80, CHR 0xA9],
     [CHR 0xE2, CHR 0x80, CHR 0xAF],
     [CHR 0xE2, CHR 0x81, CHR 0x9F],
     [CHR 0xE3, CHR 0x80, CHR 0x80]]"

text \<open>
  One step of \<^verbatim>\<open>strings.TrimLeftFunc\<close>: when the string starts with the encoding of
  one of the runes, the rest of the string after it.
\<close>

fun strip_rune :: "string list \<Rightarrow> string \<Rightarrow> string option" where
  "strip_rune [] s = None"
| "strip_rune (r # rs) s =
     (if r \<noteq> [] \<and> take (length r) s = r then Some (drop (length r) s)
      else strip_rune rs s)"

function TrimLeftRunes :: "string list \<Rightarrow> string \<Rightarrow> string" where
  "TrimLeftRunes rs s =
     (case strip_rune rs s of None \<Rightarrow> s | Some s' \<Rightarrow> TrimLeftRunes rs s')"
  by pat_completeness auto
termination
proof (relation "measure (\<lambda>(rs, s). length s)")
  show "wf (measure (\<lambda>(rs, s). length s))"
    by simp
next
  fix rs :: "string list" and s s' :: string
  assume "strip_rune rs s = Some s'"
  then have "length s' < length s"
  proof (induction rs)
    case Nil
    then show ?case by simp
  next
    case (Cons r rs)
    show ?case
    proof (cases "r \<noteq> [] \<and> take (length r) s = r")
      case True
      with Cons.prems have s': "s' = drop (length r) s"
        by simp
      from True have "length r \<le> length s"
        by (metis length_take min.cobounded1)
      with True s' show ?thesis
        by (cases r) auto
    next
      case False
      with Cons show ?thesis
        by auto
    qed
  qed
  then show "((rs, s'), (rs, s)) \<in> measure (\<lambda>(rs, s). length s)"
    by simp
qed

declare TrimLeftRunes.simps [simp del]

text \<open>
  \<^verbatim>\<open>strings.TrimSpace\<close>: white space is removed rune by rune from the left, then from
  the right of what remains. Decoding the last rune of a string finds a white-space
  rune exactly when the string ends with that rune's encoding, so the right trim is the
  left trim of the reversed string against the reversed encodings.
\<close>

definition TrimSpace :: "string \<Rightarrow> string" where
  "TrimSpace s =
     rev (TrimLeftRunes (map rev space_runes) (rev (TrimLeftRunes space_runes s)))"

text \<open>\<^verbatim>\<open>strconv.Itoa\<close>: the decimal digits, with a minus sign for a negative number.\<close>

fun digits :: "nat \<Rightarrow> string" where
  "digits n =
     (if n < 10 then [''0123456789'' ! n]
      else digits (n div 10) @ [''0123456789'' ! (n mod 10)])"

declare digits.simps [simp del]

definition Itoa :: "int \<Rightarrow> string" where
  "Itoa i = (if i < 0 then CHR ''-'' # digits (nat (- i)) else digits (nat i))"

text \<open>
  \<^verbatim>\<open>path.Clean\<close>, on the elements of the path between slashes: empty and \<^verbatim>\<open>.\<close>
  elements are dropped, a \<^verbatim>\<open>..\<close> element removes the element before it when there is
  one that is not itself \<^verbatim>\<open>..\<close>, is dropped at the root of a rooted path and is kept
  otherwise. \<open>clean_elems\<close> holds the elements kept so far, last one first.
\<close>

fun clean_elems :: "bool \<Rightarrow> string list \<Rightarrow> string list \<Rightarrow> string list" where
  "clean_elems rooted out [] = rev out"
| "clean_elems rooted out (e # es) =
     (if e = [] \<or> e = ''.'' then clean_elems rooted out es
      else if e = ''..'' then
        (case out of
           [] \<Rightarrow> if rooted then clean_elems rooted [] es else clean_elems rooted [''..''] es
         | p # ps \<Rightarrow>
             if p = ''..'' then clean_elems rooted (''..'' # out) es
             else clean_elems rooted ps es)
      else clean_elems rooted (e # out) es)"

definition Clean :: "string \<Rightarrow> string" where
  "Clean path =
     (if path = [] then ''.''
      else
        let rooted = (hd path = CHR ''/'');
            out = Join (clean_elems rooted [] (Split path (CHR ''/''))) ''/''
        in if rooted then CHR ''/'' # out else if out = [] then ''.'' else out)"

text \<open>
  \<^verbatim>\<open>path.Join\<close>: leading empty elements are ignored, the rest is joined with slashes
  and cleaned; with no non-empty element the result is the empty string.
\<close>

definition path_Join :: "string list \<Rightarrow> string" where
  "path_Join elem =
     (case dropWhile (\<lambda>e. e = []) elem of
        [] \<Rightarrow> []
      | es \<Rightarrow> Clean (Join es ''/''))"

subsection \<open>The helpers of the repository\<close>

text \<open>
  Modelled from the spec: \<^verbatim>\<open>helpers.BoolOrDefault\<close> is not part of
  \<^verbatim>\<open>shells/abstract.go\<close>. Verbose echo is on by default and is disabled by explicit
  runner configuration: an unset flag reads as the default.
\<close>

definition BoolOrDefault :: "bool option \<Rightarrow> bool \<Rightarrow> bool" where
  "BoolOrDefault v d = (case v of None \<Rightarrow> d | Some b \<Rightarrow> b)"

text \<open>
  Modelled from the spec: \<^verbatim>\<open>helpers.ToConfigMap\<close> is not part of
  \<^verbatim>\<open>shells/abstract.go\<close>. A feature configuration that is a mapping is returned as
  one; anything else is the outcome "not configured".
\<close>

definition ToConfigMap :: "iface \<Rightarrow> (string \<times> iface) list option" where
  "ToConfigMap list = (case list of IMap hash \<Rightarrow> Some hash | _ \<Rightarrow> None)"

text \<open>Indexing a Go map: a missing key reads as the nil interface.\<close>

definition index_map :: "(string \<times> iface) list \<Rightarrow> string \<Rightarrow> iface" where
  "index_map m k = (case map_of m k of None \<Rightarrow> INil | Some v \<Rightarrow> v)"

subsection \<open>The generator\<close>

definition writeCdBuildDir :: "ShellScriptInfo \<Rightarrow> instr list" where
  "writeCdBuildDir info = [Cd (FullProjectDir (Build info))]"

definition writeExports :: "ShellScriptInfo \<Rightarrow> instr list" where
  "writeExports info = map Variable (GetAllVariables (Build info))"

definition writeTLSCAInfo :: "Build \<Rightarrow> string \<Rightarrow> instr list" where
  "writeTLSCAInfo build key =
     (if TLSCAChain build \<noteq> [] then
        [Variable \<lparr>Key = key, Value = TLSCAChain build,
                   Public = True, Internal = True, File = True\<rparr>]
      else [])"

definition writeCloneCmd :: "Build \<Rightarrow> string \<Rightarrow> instr list" where
  "writeCloneCmd build projectDir =
     [Notice ''Cloning repository...'' [],
      RmDir projectDir,
      Command ''git'' [''clone'', RepoURL build, projectDir],
      Cd projectDir]"

definition writeFetchCmd :: "Build \<Rightarrow> string \<Rightarrow> string \<Rightarrow> instr list" where
  "writeFetchCmd build projectDir gitDir =
     [IfDirectory gitDir,
      Notice ''Fetching changes...'' [],
      Cd projectDir,
      Command ''git'' [''clean'', ''-ffdx''],
      Command ''git'' [''reset'', ''--hard''],
      Command ''git'' [''remote'', ''set-url'', ''origin'', RepoURL build],
      Command ''git'' [''fetch'', ''origin''],
      Else]
     @ writeCloneCmd build projectDir
     @ [EndIf]"

text \<open>
  The slice \<^verbatim>\<open>build.Sha[0:8]\<close> is evaluated before \<^verbatim>\<open>Notice\<close> is called: with a
  shorter \<open>Sha\<close> the function panics and has written nothing.
\<close>

definition writeCheckoutCmd :: "Build \<Rightarrow> panic + instr list" where
  "writeCheckoutCmd build =
     (if length (Sha build) < 8 then Inl SliceBoundsOutOfRange
      else Inr
        [Notice ''Checking out %s as %s...'' [IString (take 8 (Sha build)), IString (RefName build)],
         Command ''git'' [''checkout'', Sha build]])"

definition extractFiles :: "string \<Rightarrow> string \<Rightarrow> string \<Rightarrow> instr list" where
  "extractFiles runnerCommand archiveType archivePath =
     (if runnerCommand = [] then
        [Warning ''The %s is not supported in this executor.'' [IString archiveType]]
      else
        let args = [''extract'', ''--file'', archivePath]
        in [Notice ''Restoring %s...'' [IString archiveType],
            Command runnerCommand args])"

definition downloadArtifacts ::
  "RunnerConfig \<Rightarrow> BuildInfo \<Rightarrow> string \<Rightarrow> string \<Rightarrow> instr list" where
  "downloadArtifacts runner build runnerCommand archivePath =
     (if runnerCommand = [] then
        [Warning ''The artifacts downloading is not supported in this executor.'' []]
      else
        let args = [''artifacts'', ''--download'',
                    ''--url'', URL runner,
                    ''--token'', BuildInfo.Token build,
                    ''--id'', Itoa (BuildInfo.ID build),
                    ''--file'', archivePath]
        in [Notice ''Downloading artifacts for %s (%d)...'' [IString (BuildInfo.Name build), IInt (BuildInfo.ID build)],
            Command runnerCommand args])"

definition uploadArtifacts :: "Build \<Rightarrow> string \<Rightarrow> string \<Rightarrow> instr list" where
  "uploadArtifacts build runnerCommand archivePath =
     (if runnerCommand = [] then
        [Warning ''The artifacts uploading is not supported in this executor.'' []]
      else
        let args = [''artifacts'',
                    ''--url'', URL (Runner build),
                    ''--token'', Build.Token build,
                    ''--id'', Itoa (Build.ID build),
                    ''--file'', archivePath]
        in [Notice ''Uploading artifacts...'' [],
            Command runnerCommand args])"

text \<open>The loop of \<^verbatim>\<open>archiveFiles\<close> that collects the paths: only strings add arguments.\<close>

fun collectPaths :: "string list \<Rightarrow> iface list \<Rightarrow> string list" where
  "collectPaths args [] = args"
| "collectPaths args (artifactPath # paths) =
     (case artifactPath of
        IString file \<Rightarrow> collectPaths (args @ [''--path'', file]) paths
      | _ \<Rightarrow> collectPaths args paths)"

definition archiveFiles :: "iface \<Rightarrow> string \<Rightarrow> string \<Rightarrow> string \<Rightarrow> instr list" where
  "archiveFiles list runnerCommand archiveType archivePath =
     (case ToConfigMap list of
        None \<Rightarrow> []
      | Some hash \<Rightarrow>
          if runnerCommand = [] then
            [Warning ''The %s is not supported in this executor.'' [IString archiveType]]
          else
            let args = [''archive'', ''--file'', archivePath];
                args = (case index_map hash ''paths'' of
                          ISlice paths \<Rightarrow> collectPaths args paths
                        | _ \<Rightarrow> args);
                args = (case index_map hash ''untracked'' of
                          IBool untracked \<Rightarrow> if untracked then args @ [''--untracked''] else args
                        | _ \<Rightarrow> args)
            in if length args \<le> 3 then []
               else [Notice ''Archiving %s...'' [IString archiveType],
                     Command runnerCommand args])"

text \<open>
  The cache restoration of \<^verbatim>\<open>GeneratePreBuild\<close> (the conditional that follows the
  exchange of the two cache files), with the two paths as they are after the exchange.
\<close>

definition restoreCache :: "string \<Rightarrow> string \<Rightarrow> string \<Rightarrow> instr list" where
  "restoreCache runnerCommand cacheFile cacheFile2 =
     (if cacheFile \<noteq> [] then
        [IfFile cacheFile]
        @ extractFiles runnerCommand ''cache'' cacheFile
        @ (if cacheFile2 \<noteq> [] then
             [Else, IfFile cacheFile2]
             @ extractFiles runnerCommand ''cache'' cacheFile2
             @ [EndIf]
           else [])
        @ [EndIf]
      else [])"

text \<open>The loop of \<^verbatim>\<open>GeneratePreBuild\<close> over \<^verbatim>\<open>DependsOnBuilds\<close>.\<close>

fun processArtifacts :: "RunnerConfig \<Rightarrow> string \<Rightarrow> BuildInfo list \<Rightarrow> instr list" where
  "processArtifacts runner runnerCommand [] = []"
| "processArtifacts runner runnerCommand (otherBuild # rest) =
     (case Artifacts otherBuild of
        None \<Rightarrow> processArtifacts runner runnerCommand rest
      | Some artifacts \<Rightarrow>
          if Filename artifacts = [] then processArtifacts runner runnerCommand rest
          else
            downloadArtifacts runner otherBuild runnerCommand (Filename artifacts)
            @ extractFiles runnerCommand (BuildInfo.Name otherBuild) (Filename artifacts)
            @ [RmFile (Filename artifacts)]
            @ processArtifacts runner runnerCommand rest)"

text \<open>
  \<^verbatim>\<open>GeneratePreBuild\<close>. The only panic is the one of the checkout step; everything
  written before it is lost with the panic, so the result is either the panic or the
  whole instruction sequence.
\<close>

definition GeneratePreBuild :: "ShellScriptInfo \<Rightarrow> panic + instr list" where
  "GeneratePreBuild info =
     (let build = Build info;
          projectDir = FullProjectDir build;
          gitDir = path_Join [FullProjectDir build, ''.git''];
          w = writeExports info
              @ writeTLSCAInfo build ''GIT_SSL_CAINFO''
              @ writeTLSCAInfo build ''CI_SERVER_TLS_CA_FILE''
              @ (if AllowGitFetch build then writeFetchCmd build projectDir gitDir
                 else writeCloneCmd build projectDir)
      in case writeCheckoutCmd build of
           Inl p \<Rightarrow> Inl p
         | Inr checkout \<Rightarrow>
             let cacheFile = CacheFile build;
                 cacheFile2 = CacheFileForRef build ''master'';
                 (cacheFile, cacheFile2) =
                   (if cacheFile = [] then (cacheFile2, []) else (cacheFile, cacheFile2))
             in Inr (w @ checkout
                     @ restoreCache (RunnerCommand info) cacheFile cacheFile2
                     @ processArtifacts (Runner build) (RunnerCommand info)
                         (DependsOnBuilds build)))"

text \<open>The loop of \<^verbatim>\<open>GenerateCommands\<close> over the lines of the command block.\<close>

fun writeCommandLines :: "RunnerConfig \<Rightarrow> string list \<Rightarrow> instr list" where
  "writeCommandLines runner [] = []"
| "writeCommandLines runner (command # rest) =
     (let command = TrimSpace command
      in (if \<not> BoolOrDefault (DisableVerbose runner) False then
            (if command \<noteq> [] then [Notice ''$ %s'' [IString command]] else [EmptyLine])
          else [])
         @ [Line command]
         @ writeCommandLines runner rest)"

definition GenerateCommands :: "ShellScriptInfo \<Rightarrow> instr list" where
  "GenerateCommands info =
     writeExports info
     @ writeCdBuildDir info
     @ (let commands = Commands (Build info);
            commands = TrimSpace commands
        in writeCommandLines (Runner (Build info)) (Split commands (CHR 0x0A)))"

definition GeneratePostBuild :: "ShellScriptInfo \<Rightarrow> instr list" where
  "GeneratePostBuild info =
     writeExports info
     @ writeCdBuildDir info
     @ writeTLSCAInfo (Build info) ''CI_SERVER_TLS_CA_FILE''
     @ (let cacheFile = CacheFile (Build info)
        in if cacheFile \<noteq> [] then
             archiveFiles (index_map (Options (Build info)) ''cache'')
               (RunnerCommand info) ''cache'' cacheFile
           else [])
     @ (if Network (Build info) \<noteq> None then
          archiveFiles (index_map (Options (Build info)) ''artifacts'')
            (RunnerCommand info) ''artifacts'' ''artifacts.zip''
          @ [IfFile ''artifacts.zip'']
          @ uploadArtifacts (Build info) (RunnerCommand info) ''artifacts.zip''
          @ [RmFile ''aritfacts.zip'']
          @ [EndIf]
        else [])"

subsection \<open>Nesting of conditionals\<close>

text \<open>
  Reading an instruction sequence from the left with a stack of the conditionals that
  are open, each with the flag "its \<open>Else\<close> has been seen": \<open>IfDirectory\<close> and
  \<open>IfFile\<close> open one, \<open>Else\<close> needs an open one that has no \<open>Else\<close> yet, \<open>EndIf\<close>
  closes the innermost. The result is the stack at the end, or \<open>None\<close> when an
  \<open>Else\<close> or \<open>EndIf\<close> had no conditional to belong to.
\<close>

fun scan :: "instr list \<Rightarrow> bool list \<Rightarrow> bool list option" where
  "scan [] st = Some st"
| "scan (IfDirectory p # prog) st = scan prog (False # st)"
| "scan (IfFile p # prog) st = scan prog (False # st)"
| "scan (Else # prog) st =
     (case st of [] \<Rightarrow> None | e # st' \<Rightarrow> if e then None else scan prog (True # st'))"
| "scan (EndIf # prog) st =
     (case st of [] \<Rightarrow> None | e # st' \<Rightarrow> scan prog st')"
| "scan (i # prog) st = scan prog st"

definition well_nested :: "instr list \<Rightarrow> bool" where
  "well_nested prog = (scan prog [] = Some [])"

subsection \<open>A sample build\<close>

definition sample_runner :: RunnerConfig where
  "sample_runner = \<lparr>URL = ''https://ci.example.com/'', DisableVerbose = None\<rparr>"

definition sample_dependencies :: "BuildInfo list" where
  "sample_dependencies =
     [\<lparr>BuildInfo.ID = 7, BuildInfo.Name = ''compile'', BuildInfo.Token = ''t7'',
        Artifacts = Some \<lparr>Filename = ''compile.zip''\<rparr>\<rparr>,
      \<lparr>BuildInfo.ID = 8, BuildInfo.Name = ''lint'', BuildInfo.Token = ''t8'',
        Artifacts = Some \<lparr>Filename = []\<rparr>\<rparr>,
      \<lparr>BuildInfo.ID = 9, BuildInfo.Name = ''docs'', BuildInfo.Token = ''t9'',
        Artifacts = Some \<lparr>Filename = ''docs.zip''\<rparr>\<rparr>]"

definition sample_build :: Build where
  "sample_build =
     \<lparr>RepoURL = ''https://ci.example.com/group/project.git'',
      Sha = ''0123456789abcdef0123456789abcdef01234567'',
      RefName = ''feature'',
      AllowGitFetch = True,
      Commands = ''  echo hi'' @ [CHR 0x0A, CHR 0x0A] @ ''  ls  '',
      Options = [(''artifacts'', IMap [(''paths'', ISlice [IString ''dist'']),
                                       (''untracked'', IBool True)])],
      DependsOnBuilds = sample_dependencies,
      Network = Some NetworkClient,
      Token = ''secret'',
      ID = 42,
      Runner = sample_runner,
      TLSCAChain = ''CERT'',
      FullProjectDir = ''/builds/group/project'',
      GetAllVariables = [\<lparr>Key = ''CI'', Value = ''true'',
                            Public = True, Internal = False, File = False\<rparr>],
      CacheFile = ''a'',
      CacheFileForRef = (\<lambda>ref. if ref = ''master'' then ''b'' else [])\<rparr>"

definition sample_info :: ShellScriptInfo where
  "sample_info = \<lparr>Build = sample_build, RunnerCommand = ''gitlab-runner''\<rparr>"

section \<open>Supporting lemmas\<close>

subsection \<open>The two outcomes of the pre-build generator\<close>

lemma GeneratePreBuild_Inr:
  assumes "8 \<le> length (Sha (Build info))"
  shows "GeneratePreBuild info =
    Inr (writeExports info
         @ writeTLSCAInfo (Build info) ''GIT_SSL_CAINFO''
         @ writeTLSCAInfo (Build info) ''CI_SERVER_TLS_CA_FILE''
         @ (if AllowGitFetch (Build info)
            then writeFetchCmd (Build info) (FullProjectDir (Build info))
                   (path_Join [FullProjectDir (Build info), ''.git''])
            else writeCloneCmd (Build info) (FullProjectDir (Build info)))
         @ [Notice ''Checking out %s as %s...''
              [IString (take 8 (Sha (Build info))), IString (RefName (Build info))],
            Command ''git'' [''checkout'', Sha (Build info)]]
         @ (if CacheFile (Build info) = []
            then restoreCache (RunnerCommand info) (CacheFileForRef (Build info) ''master'') []
            else restoreCache (RunnerCommand info) (CacheFile (Build info))
                   (CacheFileForRef (Build info) ''master''))
         @ processArtifacts (Runner (Build info)) (RunnerCommand info)
             (DependsOnBuilds (Build info)))"
  using assms by (simp add: GeneratePreBuild_def writeCheckoutCmd_def Let_def)

lemma GeneratePreBuild_Inl:
  assumes "length (Sha (Build info)) < 8"
  shows "GeneratePreBuild info = Inl SliceBoundsOutOfRange"
  using assms by (simp add: GeneratePreBuild_def writeCheckoutCmd_def Let_def)

lemma processArtifacts_concat:
  "processArtifacts runner runnerCommand deps =
     concat (map (\<lambda>d.
         downloadArtifacts runner d runnerCommand (Filename (the (Artifacts d)))
         @ extractFiles runnerCommand (BuildInfo.Name d) (Filename (the (Artifacts d)))
         @ [RmFile (Filename (the (Artifacts d)))])
       (filter (\<lambda>d. case Artifacts d of None \<Rightarrow> False | Some a \<Rightarrow> Filename a \<noteq> []) deps))"
  by (induction deps) (simp_all split: option.splits)

lemma GeneratePreBuild_DependsOnBuilds:
  assumes "8 \<le> length (Sha (Build info))"
  shows "GeneratePreBuild info = Inr (
      projr (GeneratePreBuild (info\<lparr>Build := (Build info)\<lparr>DependsOnBuilds := []\<rparr>\<rparr>))
      @ processArtifacts (Runner (Build info)) (RunnerCommand info)
          (DependsOnBuilds (Build info)))"
  using assms
  by (simp add: GeneratePreBuild_Inr writeExports_def writeTLSCAInfo_def
      writeFetchCmd_def writeCloneCmd_def)

subsection \<open>Every helper leaves the open conditionals as they were\<close>

lemma scan_append:
  "scan (xs @ ys) st = (case scan xs st of None \<Rightarrow> None | Some st' \<Rightarrow> scan ys st')"
  by (induction xs st rule: scan.induct) (auto split: list.splits)

lemma scan_balanced_append:
  "scan xs st = Some st \<Longrightarrow> scan (xs @ ys) st = scan ys st"
  by (simp add: scan_append)

lemma scan_Variables: "scan (map Variable vs) st = Some st"
  by (induction vs) auto

lemma scan_writeExports: "scan (writeExports info) st = Some st"
  by (simp add: writeExports_def scan_Variables)

lemma scan_writeCdBuildDir: "scan (writeCdBuildDir info) st = Some st"
  by (simp add: writeCdBuildDir_def)

lemma scan_writeTLSCAInfo: "scan (writeTLSCAInfo build key) st = Some st"
  by (simp add: writeTLSCAInfo_def)

lemma scan_writeCloneCmd: "scan (writeCloneCmd build projectDir) st = Some st"
  by (simp add: writeCloneCmd_def)

lemma scan_writeFetchCmd: "scan (writeFetchCmd build projectDir gitDir) st = Some st"
  by (simp add: writeFetchCmd_def writeCloneCmd_def)

lemma scan_extractFiles: "scan (extractFiles runnerCommand archiveType archivePath) st = Some st"
  by (simp add: extractFiles_def)

lemma scan_downloadArtifacts:
  "scan (downloadArtifacts runner build runnerCommand archivePath) st = Some st"
  by (simp add: downloadArtifacts_def)

lemma scan_uploadArtifacts:
  "scan (uploadArtifacts build runnerCommand archivePath) st = Some st"
  by (simp add: uploadArtifacts_def)

lemma scan_archiveFiles:
  "scan (archiveFiles list runnerCommand archiveType archivePath) st = Some st"
  by (simp add: archiveFiles_def Let_def split: option.splits)

lemma scan_restoreCache: "scan (restoreCache runnerCommand cacheFile cacheFile2) st = Some st"
  by (simp add: restoreCache_def scan_append scan_extractFiles)

lemma scan_processArtifacts: "scan (processArtifacts runner runnerCommand deps) st = Some st"
  by (induction deps)
    (simp_all add: scan_append scan_downloadArtifacts scan_extractFiles split: option.splits)

lemma scan_writeCommandLines: "scan (writeCommandLines runner lines) st = Some st"
  by (induction lines) (simp_all add: Let_def)

lemmas scan_segments =
  scan_append scan_writeExports scan_writeCdBuildDir scan_writeTLSCAInfo scan_writeCloneCmd
  scan_writeFetchCmd scan_extractFiles scan_downloadArtifacts scan_uploadArtifacts
  scan_archiveFiles scan_restoreCache scan_processArtifacts scan_writeCommandLines

subsection \<open>Which instructions a helper can write\<close>

lemma notin_extractFiles [simp]:
  "IfFile p \<notin> set (extractFiles runnerCommand archiveType archivePath)"
  "IfDirectory p \<notin> set (extractFiles runnerCommand archiveType archivePath)"
  "Variable v \<notin> set (extractFiles runnerCommand archiveType archivePath)"
  "RmFile p \<notin> set (extractFiles runnerCommand archiveType archivePath)"
  "Else \<notin> set (extractFiles runnerCommand archiveType archivePath)"
  "EndIf \<notin> set (extractFiles runnerCommand archiveType archivePath)"
  by (simp_all add: extractFiles_def)

lemma notin_downloadArtifacts [simp]:
  "IfFile p \<notin> set (downloadArtifacts runner build runnerCommand archivePath)"
  "IfDirectory p \<notin> set (downloadArtifacts runner build runnerCommand archivePath)"
  "Variable v \<notin> set (downloadArtifacts runner build runnerCommand archivePath)"
  "Else \<notin> set (downloadArtifacts runner build runnerCommand archivePath)"
  "EndIf \<notin> set (downloadArtifacts runner build runnerCommand archivePath)"
  by (simp_all add: downloadArtifacts_def)

lemma notin_processArtifacts:
  "IfFile p \<notin> set (processArtifacts runner runnerCommand deps)"
  "IfDirectory p \<notin> set (processArtifacts runner runnerCommand deps)"
  "Variable v \<notin> set (processArtifacts runner runnerCommand deps)"
  "Else \<notin> set (processArtifacts runner runnerCommand deps)"
  "EndIf \<notin> set (processArtifacts runner runnerCommand deps)"
  by (induction deps) (simp_all split: option.splits)

lemma notin_restoreCache:
  "Variable v \<notin> set (restoreCache runnerCommand cacheFile cacheFile2)"
  "IfDirectory p \<notin> set (restoreCache runnerCommand cacheFile cacheFile2)"
  by (simp_all add: restoreCache_def)

lemma IfFile_notin_repository_sync:
  "IfFile p \<notin> set (writeExports info)"
  "IfFile p \<notin> set (writeTLSCAInfo build key)"
  "IfFile p \<notin> set (writeCloneCmd build projectDir)"
  "IfFile p \<notin> set (writeFetchCmd build projectDir gitDir)"
  by (auto simp add: writeExports_def writeTLSCAInfo_def writeCloneCmd_def writeFetchCmd_def)

lemma Variable_notin_repository_sync:
  "Variable v \<notin> set (writeCloneCmd build projectDir)"
  "Variable v \<notin> set (writeFetchCmd build projectDir gitDir)"
  by (auto simp add: writeCloneCmd_def writeFetchCmd_def)

lemma notin_uploadArtifacts [simp]:
  "RmFile p \<notin> set (uploadArtifacts build runnerCommand archivePath)"
  by (simp add: uploadArtifacts_def)

lemma notin_archiveFiles [simp]:
  "RmFile p \<notin> set (archiveFiles list runnerCommand archiveType archivePath)"
  by (simp add: archiveFiles_def Let_def split: option.splits)

subsection \<open>Loops as maps\<close>

lemma writeCommandLines_concat:
  "writeCommandLines runner lines =
     concat (map (\<lambda>command.
         (if BoolOrDefault (DisableVerbose runner) False then []
          else if command \<noteq> [] then [Notice ''$ %s'' [IString command]]
          else [EmptyLine])
         @ [Line command])
       (map TrimSpace lines))"
  by (induction lines) (simp_all add: Let_def)

lemma collectPaths_concat:
  "collectPaths args paths =
     args @ concat (map (\<lambda>p. case p of IString file \<Rightarrow> [''--path'', file] | _ \<Rightarrow> []) paths)"
  by (induction paths arbitrary: args) (simp_all split: iface.splits)

subsection \<open>Trimming leaves no white space at either end\<close>

lemma strip_rune_TrimLeftRunes: "strip_rune rs (TrimLeftRunes rs s) = None"
proof (induction rs s rule: TrimLeftRunes.induct)
  case (1 rs s)
  then show ?case
    by (cases "strip_rune rs s") (simp_all add: TrimLeftRunes.simps [of rs s])
qed

lemma strip_rune_suffix: "strip_rune rs s = Some s' \<Longrightarrow> \<exists>p. s = p @ s'"
proof (induction rs)
  case Nil
  then show ?case by simp
next
  case (Cons r rs)
  then show ?case
    by (cases "r \<noteq> [] \<and> take (length r) s = r") (auto intro: append_take_drop_id [symmetric])
qed

lemma TrimLeftRunes_suffix: "\<exists>p. s = p @ TrimLeftRunes rs s"
proof (induction rs s rule: TrimLeftRunes.induct)
  case (1 rs s)
  show ?case
  proof (cases "strip_rune rs s")
    case None
    then show ?thesis
      by (simp add: TrimLeftRunes.simps [of rs s])
  next
    case (Some s')
    then have same: "TrimLeftRunes rs s = TrimLeftRunes rs s'"
      by (simp add: TrimLeftRunes.simps [of rs s])
    from strip_rune_suffix [OF Some] obtain p where p: "s = p @ s'" ..
    from 1 [OF Some] obtain q where q: "s' = q @ TrimLeftRunes rs s'" ..
    from p q same have "s = (p @ q) @ TrimLeftRunes rs s"
      by (metis append_assoc)
    then show ?thesis ..
  qed
qed

lemma strip_rune_prefix: "strip_rune rs (u @ v) = None \<Longrightarrow> strip_rune rs u = None"
proof (induction rs)
  case Nil
  then show ?case by simp
next
  case (Cons r rs)
  from Cons.prems have no: "\<not> (r \<noteq> [] \<and> take (length r) (u @ v) = r)"
    and rest: "strip_rune rs (u @ v) = None"
    by (auto split: if_splits)
  have "\<not> (r \<noteq> [] \<and> take (length r) u = r)"
  proof
    assume m: "r \<noteq> [] \<and> take (length r) u = r"
    then have "length r \<le> length u"
      by (metis length_take min.cobounded1)
    with m no show False
      by simp
  qed
  moreover from Cons.IH [OF rest] have "strip_rune rs u = None" .
  ultimately show ?case
    by simp
qed

lemma TrimSpace_trimmed:
  "strip_rune space_runes (TrimSpace s) = None"
  "strip_rune (map rev space_runes) (rev (TrimSpace s)) = None"
proof -
  let ?t = "TrimLeftRunes space_runes s"
  let ?x = "TrimLeftRunes (map rev space_runes) (rev ?t)"
  obtain p where "rev ?t = p @ ?x"
    using TrimLeftRunes_suffix by blast
  then have "?t = rev ?x @ rev p"
    by (metis rev_append rev_rev_ident)
  moreover have "strip_rune space_runes ?t = None"
    by (rule strip_rune_TrimLeftRunes)
  ultimately have "strip_rune space_runes (rev ?x) = None"
    by (metis strip_rune_prefix)
  then show "strip_rune space_runes (TrimSpace s) = None"
    by (simp add: TrimSpace_def)
  show "strip_rune (map rev space_runes) (rev (TrimSpace s)) = None"
    by (simp add: TrimSpace_def strip_rune_TrimLeftRunes)
qed

subsection \<open>Values of the sample build\<close>

lemma sample_lines:
  "map TrimSpace (Split (TrimSpace (''  echo hi'' @ [CHR 0x0A, CHR 0x0A] @ ''  ls  '')) (CHR 0x0A))
     = [''echo hi'', [], ''ls'']"
  by code_simp

lemma sample_gitDir: "path_Join [''/builds/group/project'', ''.git''] = ''/builds/group/project/.git''"
  by code_simp

lemma sample_Itoa: "Itoa 7 = ''7''" "Itoa 9 = ''9''" "Itoa 42 = ''42''"
  by code_simp+

section \<open>Post-build: the artifact step\<close>

text \<open>
  C1. \<^verbatim>\<open>GeneratePostBuild\<close> performs the artifact step exactly when the \<open>Network\<close>
  capability is set: its output is the output for the same build without \<open>Network\<close>,
  followed, when \<open>Network\<close> is set, by the archive helper on the \<^verbatim>\<open>artifacts\<close>
  configuration against \<^verbatim>\<open>artifacts.zip\<close>, the file-existence conditional on
  \<^verbatim>\<open>artifacts.zip\<close>, the upload, a remove and the end of the conditional. The remove
  names \<^verbatim>\<open>aritfacts.zip\<close>: no instruction of the whole sequence removes the archive
  \<^verbatim>\<open>artifacts.zip\<close> that was uploaded.
\<close>

theorem artifact_step:
  "GeneratePostBuild info =
     GeneratePostBuild (info\<lparr>Build := (Build info)\<lparr>Network := None\<rparr>\<rparr>)
     @ (if Network (Build info) \<noteq> None then
          archiveFiles (index_map (Options (Build info)) ''artifacts'')
            (RunnerCommand info) ''artifacts'' ''artifacts.zip''
          @ [IfFile ''artifacts.zip'']
          @ uploadArtifacts (Build info) (RunnerCommand info) ''artifacts.zip''
          @ [RmFile ''aritfacts.zip'', EndIf]
        else [])
   \<and> RmFile ''artifacts.zip'' \<notin> set (GeneratePostBuild info)"
  by (simp add: GeneratePostBuild_def Let_def writeExports_def writeCdBuildDir_def
      writeTLSCAInfo_def image_iff)

theorem artifact_step_witness:
  "Network (Build sample_info) \<noteq> None
   \<and> GeneratePostBuild sample_info =
     [Variable \<lparr>Key = ''CI'', Value = ''true'', Public = True, Internal = False, File = False\<rparr>,
      Cd ''/builds/group/project'',
      Variable \<lparr>Key = ''CI_SERVER_TLS_CA_FILE'', Value = ''CERT'',
                  Public = True, Internal = True, File = True\<rparr>,
      Notice ''Archiving %s...'' [IString ''artifacts''],
      Command ''gitlab-runner''
        [''archive'', ''--file'', ''artifacts.zip'', ''--path'', ''dist'', ''--untracked''],
      IfFile ''artifacts.zip'',
      Notice ''Uploading artifacts...'' [],
      Command ''gitlab-runner''
        [''artifacts'', ''--url'', ''https://ci.example.com/'', ''--token'', ''secret'',
         ''--id'', ''42'', ''--file'', ''artifacts.zip''],
      RmFile ''aritfacts.zip'',
      EndIf]
   \<and> RmFile ''artifacts.zip'' \<notin> set (GeneratePostBuild sample_info)"
  using artifact_step [of sample_info]
  by (simp add: GeneratePostBuild_def sample_info_def sample_build_def sample_runner_def
      writeExports_def writeCdBuildDir_def writeTLSCAInfo_def archiveFiles_def
      uploadArtifacts_def ToConfigMap_def index_map_def Let_def sample_Itoa)

section \<open>Pre-build: cache restoration\<close>

text \<open>
  C2. For a build whose \<open>Sha\<close> can be sliced, with primary cache path \<open>a\<close> and
  secondary (\<^verbatim>\<open>master\<close>) cache path \<open>b\<close>, the output of \<^verbatim>\<open>GeneratePreBuild\<close> is a
  well-nested part without any file-existence check, then the cache restoration, then
  a part without any file-existence check, \<open>Else\<close> or \<open>EndIf\<close>. When both paths are
  non-empty the restoration is the check on \<open>a\<close> with the extract helper on \<open>a\<close> as
  its then-branch, and the check on \<open>b\<close> with its extract stands between the \<open>Else\<close>
  and the \<open>EndIf\<close> of the check on \<open>a\<close>; when \<open>a\<close> is empty and \<open>b\<close> is not, it is
  the check on \<open>b\<close> alone, at top level; when both are empty it is nothing.
\<close>

theorem cache_restoration_nesting:
  assumes sha: "8 \<le> length (Sha (Build info))"
    and a: "CacheFile (Build info) = a"
    and b: "CacheFileForRef (Build info) ''master'' = b"
  shows "\<exists>pre post.
    well_nested pre \<and> (\<forall>p. IfFile p \<notin> set pre) \<and>
    (\<forall>p. IfFile p \<notin> set post) \<and> Else \<notin> set post \<and> EndIf \<notin> set post \<and>
    GeneratePreBuild info = Inr (pre
      @ (if a \<noteq> [] \<and> b \<noteq> [] then
           [IfFile a] @ extractFiles (RunnerCommand info) ''cache'' a
           @ [Else, IfFile b] @ extractFiles (RunnerCommand info) ''cache'' b @ [EndIf]
           @ [EndIf]
         else if a \<noteq> [] then
           [IfFile a] @ extractFiles (RunnerCommand info) ''cache'' a @ [EndIf]
         else if b \<noteq> [] then
           [IfFile b] @ extractFiles (RunnerCommand info) ''cache'' b @ [EndIf]
         else [])
      @ post)"
proof -
  define pre where "pre =
    writeExports info
    @ writeTLSCAInfo (Build info) ''GIT_SSL_CAINFO''
    @ writeTLSCAInfo (Build info) ''CI_SERVER_TLS_CA_FILE''
    @ (if AllowGitFetch (Build info)
       then writeFetchCmd (Build info) (FullProjectDir (Build info))
              (path_Join [FullProjectDir (Build info), ''.git''])
       else writeCloneCmd (Build info) (FullProjectDir (Build info)))
    @ [Notice ''Checking out %s as %s...''
         [IString (take 8 (Sha (Build info))), IString (RefName (Build info))],
       Command ''git'' [''checkout'', Sha (Build info)]]"
  define post where "post =
    processArtifacts (Runner (Build info)) (RunnerCommand info) (DependsOnBuilds (Build info))"
  have "well_nested pre"
    by (simp add: pre_def well_nested_def scan_segments)
  moreover have "\<forall>p. IfFile p \<notin> set pre"
    by (simp add: pre_def IfFile_notin_repository_sync)
  moreover have "(\<forall>p. IfFile p \<notin> set post) \<and> Else \<notin> set post \<and> EndIf \<notin> set post"
    by (simp add: post_def notin_processArtifacts)
  moreover have "GeneratePreBuild info = Inr (pre
      @ (if a \<noteq> [] \<and> b \<noteq> [] then
           [IfFile a] @ extractFiles (RunnerCommand info) ''cache'' a
           @ [Else, IfFile b] @ extractFiles (RunnerCommand info) ''cache'' b @ [EndIf]
           @ [EndIf]
         else if a \<noteq> [] then
           [IfFile a] @ extractFiles (RunnerCommand info) ''cache'' a @ [EndIf]
         else if b \<noteq> [] then
           [IfFile b] @ extractFiles (RunnerCommand info) ''cache'' b @ [EndIf]
         else [])
      @ post)"
    using a b by (simp add: GeneratePreBuild_Inr [OF sha] pre_def post_def restoreCache_def)
  ultimately show ?thesis
    by blast
qed

theorem cache_restoration_nesting_witness:
  "8 \<le> length (Sha (Build sample_info))
   \<and> CacheFile (Build sample_info) = ''a''
   \<and> CacheFileForRef (Build sample_info) ''master'' = ''b''
   \<and> (\<exists>pre post.
        well_nested pre \<and> (\<forall>p. IfFile p \<notin> set pre) \<and>
        (\<forall>p. IfFile p \<notin> set post) \<and> Else \<notin> set post \<and> EndIf \<notin> set post \<and>
        GeneratePreBuild sample_info = Inr (pre
          @ [IfFile ''a'',
             Notice ''Restoring %s...'' [IString ''cache''],
             Command ''gitlab-runner'' [''extract'', ''--file'', ''a''],
             Else,
             IfFile ''b'',
             Notice ''Restoring %s...'' [IString ''cache''],
             Command ''gitlab-runner'' [''extract'', ''--file'', ''b''],
             EndIf,
             EndIf]
          @ post))"
  using cache_restoration_nesting [of sample_info "''a''" "''b''"]
  by (simp add: sample_info_def sample_build_def extractFiles_def)

section \<open>Pre-build: repository synchronisation\<close>

text \<open>
  C3. For a build whose \<open>Sha\<close> can be sliced, the output of \<^verbatim>\<open>GeneratePreBuild\<close> is
  a part without any directory-existence check, then the repository synchronisation,
  then the checkout of the exact \<open>Sha\<close>, then a part without any directory-existence
  check. With \<open>AllowGitFetch\<close> false the synchronisation is the clone sequence alone
  (remove the project directory, clone \<open>RepoURL\<close> into it, enter it), so the output has
  no directory-existence check at all; with \<open>AllowGitFetch\<close> true it is the check on the
  \<^verbatim>\<open>.git\<close> directory of the project directory, with the fetch path (enter the project
  directory, \<^verbatim>\<open>git clean -ffdx\<close>, \<^verbatim>\<open>git reset --hard\<close>, repoint \<^verbatim>\<open>origin\<close> to
  \<open>RepoURL\<close>, \<^verbatim>\<open>git fetch origin\<close>) as then-branch and the same clone sequence as
  else-branch.
\<close>

theorem repository_sync:
  assumes sha: "8 \<le> length (Sha (Build info))"
    and dir: "FullProjectDir (Build info) = dir"
    and url: "RepoURL (Build info) = url"
  shows "\<exists>pre post.
    (\<forall>p. IfDirectory p \<notin> set pre) \<and> (\<forall>p. IfDirectory p \<notin> set post) \<and>
    GeneratePreBuild info = Inr (pre
      @ (if AllowGitFetch (Build info) then
           [IfDirectory (path_Join [dir, ''.git'']),
            Notice ''Fetching changes...'' [],
            Cd dir,
            Command ''git'' [''clean'', ''-ffdx''],
            Command ''git'' [''reset'', ''--hard''],
            Command ''git'' [''remote'', ''set-url'', ''origin'', url],
            Command ''git'' [''fetch'', ''origin''],
            Else,
            Notice ''Cloning repository...'' [],
            RmDir dir,
            Command ''git'' [''clone'', url, dir],
            Cd dir,
            EndIf]
         else
           [Notice ''Cloning repository...'' [],
            RmDir dir,
            Command ''git'' [''clone'', url, dir],
            Cd dir])
      @ [Notice ''Checking out %s as %s...''
           [IString (take 8 (Sha (Build info))), IString (RefName (Build info))],
         Command ''git'' [''checkout'', Sha (Build info)]]
      @ post)"
proof -
  define pre where "pre =
    writeExports info
    @ writeTLSCAInfo (Build info) ''GIT_SSL_CAINFO''
    @ writeTLSCAInfo (Build info) ''CI_SERVER_TLS_CA_FILE''"
  define post where "post =
    (if CacheFile (Build info) = []
     then restoreCache (RunnerCommand info) (CacheFileForRef (Build info) ''master'') []
     else restoreCache (RunnerCommand info) (CacheFile (Build info))
            (CacheFileForRef (Build info) ''master''))
    @ processArtifacts (Runner (Build info)) (RunnerCommand info) (DependsOnBuilds (Build info))"
  have "\<forall>p. IfDirectory p \<notin> set pre"
    by (auto simp add: pre_def writeExports_def writeTLSCAInfo_def)
  moreover have "\<forall>p. IfDirectory p \<notin> set post"
    by (simp add: post_def notin_processArtifacts notin_restoreCache)
  moreover have "GeneratePreBuild info = Inr (pre
      @ (if AllowGitFetch (Build info) then
           [IfDirectory (path_Join [dir, ''.git'']),
            Notice ''Fetching changes...'' [],
            Cd dir,
            Command ''git'' [''clean'', ''-ffdx''],
            Command ''git'' [''reset'', ''--hard''],
            Command ''git'' [''remote'', ''set-url'', ''origin'', url],
            Command ''git'' [''fetch'', ''origin''],
            Else,
            Notice ''Cloning repository...'' [],
            RmDir dir,
            Command ''git'' [''clone'', url, dir],
            Cd dir,
            EndIf]
         else
           [Notice ''Cloning repository...'' [],
            RmDir dir,
            Command ''git'' [''clone'', url, dir],
            Cd dir])
      @ [Notice ''Checking out %s as %s...''
           [IString (take 8 (Sha (Build info))), IString (RefName (Build info))],
         Command ''git'' [''checkout'', Sha (Build info)]]
      @ post)"
    using dir url
    by (simp add: GeneratePreBuild_Inr [OF sha] pre_def post_def writeFetchCmd_def
        writeCloneCmd_def)
  ultimately show ?thesis
    by blast
qed

theorem repository_sync_witness:
  "8 \<le> length (Sha (Build sample_info))
   \<and> FullProjectDir (Build sample_info) = ''/builds/group/project''
   \<and> RepoURL (Build sample_info) = ''https://ci.example.com/group/project.git''
   \<and> AllowGitFetch (Build sample_info)
   \<and> (\<exists>pre post.
        (\<forall>p. IfDirectory p \<notin> set pre) \<and> (\<forall>p. IfDirectory p \<notin> set post) \<and>
        GeneratePreBuild sample_info = Inr (pre
          @ [IfDirectory ''/builds/group/project/.git'',
             Notice ''Fetching changes...'' [],
             Cd ''/builds/group/project'',
             Command ''git'' [''clean'', ''-ffdx''],
             Command ''git'' [''reset'', ''--hard''],
             Command ''git'' [''remote'', ''set-url'', ''origin'',
                              ''https://ci.example.com/group/project.git''],
             Command ''git'' [''fetch'', ''origin''],
             Else,
             Notice ''Cloning repository...'' [],
             RmDir ''/builds/group/project'',
             Command ''git'' [''clone'', ''https://ci.example.com/group/project.git'',
                              ''/builds/group/project''],
             Cd ''/builds/group/project'',
             EndIf,
             Notice ''Checking out %s as %s...'' [IString ''01234567'', IString ''feature''],
             Command ''git'' [''checkout'', ''0123456789abcdef0123456789abcdef01234567'']]
          @ post))"
  using repository_sync [of sample_info "''/builds/group/project''"
      "''https://ci.example.com/group/project.git''"]
  by (simp add: sample_info_def sample_build_def sample_gitDir)

section \<open>Pre-build: the TLS trust chain\<close>

text \<open>
  C4. For a build whose \<open>Sha\<close> can be sliced, the variables that \<^verbatim>\<open>GeneratePreBuild\<close>
  writes are the declared build variables followed, when \<open>TLSCAChain\<close> is non-empty, by
  exactly two more, keyed \<^verbatim>\<open>GIT_SSL_CAINFO\<close> and \<^verbatim>\<open>CI_SERVER_TLS_CA_FILE\<close>, each
  with the chain as value and with \<open>Public\<close>, \<open>Internal\<close> and \<open>File\<close> set; when
  \<open>TLSCAChain\<close> is empty no variable follows the declared ones. Nothing after them is
  a variable.
\<close>

theorem tls_variables:
  assumes sha: "8 \<le> length (Sha (Build info))"
    and chain: "TLSCAChain (Build info) = chain"
  shows "\<exists>rest.
    GeneratePreBuild info = Inr (
      map Variable (GetAllVariables (Build info))
      @ (if chain \<noteq> [] then
           [Variable \<lparr>Key = ''GIT_SSL_CAINFO'', Value = chain,
                       Public = True, Internal = True, File = True\<rparr>,
            Variable \<lparr>Key = ''CI_SERVER_TLS_CA_FILE'', Value = chain,
                       Public = True, Internal = True, File = True\<rparr>]
         else [])
      @ rest)
    \<and> (\<forall>v. Variable v \<notin> set rest)"
proof -
  define rest where "rest =
    (if AllowGitFetch (Build info)
     then writeFetchCmd (Build info) (FullProjectDir (Build info))
            (path_Join [FullProjectDir (Build info), ''.git''])
     else writeCloneCmd (Build info) (FullProjectDir (Build info)))
    @ [Notice ''Checking out %s as %s...''
         [IString (take 8 (Sha (Build info))), IString (RefName (Build info))],
       Command ''git'' [''checkout'', Sha (Build info)]]
    @ (if CacheFile (Build info) = []
       then restoreCache (RunnerCommand info) (CacheFileForRef (Build info) ''master'') []
       else restoreCache (RunnerCommand info) (CacheFile (Build info))
              (CacheFileForRef (Build info) ''master''))
    @ processArtifacts (Runner (Build info)) (RunnerCommand info) (DependsOnBuilds (Build info))"
  have "\<forall>v. Variable v \<notin> set rest"
    by (simp add: rest_def Variable_notin_repository_sync notin_restoreCache
        notin_processArtifacts)
  moreover have "GeneratePreBuild info = Inr (
      map Variable (GetAllVariables (Build info))
      @ (if chain \<noteq> [] then
           [Variable \<lparr>Key = ''GIT_SSL_CAINFO'', Value = chain,
                       Public = True, Internal = True, File = True\<rparr>,
            Variable \<lparr>Key = ''CI_SERVER_TLS_CA_FILE'', Value = chain,
                       Public = True, Internal = True, File = True\<rparr>]
         else [])
      @ rest)"
    using chain
    by (simp add: GeneratePreBuild_Inr [OF sha] rest_def writeExports_def writeTLSCAInfo_def)
  ultimately show ?thesis
    by blast
qed

theorem tls_variables_witness:
  "8 \<le> length (Sha (Build sample_info))
   \<and> TLSCAChain (Build sample_info) = ''CERT''
   \<and> (\<exists>rest.
        GeneratePreBuild sample_info = Inr (
          [Variable \<lparr>Key = ''CI'', Value = ''true'',
                      Public = True, Internal = False, File = False\<rparr>,
           Variable \<lparr>Key = ''GIT_SSL_CAINFO'', Value = ''CERT'',
                      Public = True, Internal = True, File = True\<rparr>,
           Variable \<lparr>Key = ''CI_SERVER_TLS_CA_FILE'', Value = ''CERT'',
                      Public = True, Internal = True, File = True\<rparr>]
          @ rest)
        \<and> (\<forall>v. Variable v \<notin> set rest))"
  using tls_variables [of sample_info "''CERT''"]
  by (simp add: sample_info_def sample_build_def)

section \<open>Command execution\<close>

text \<open>
  C5. \<^verbatim>\<open>GenerateCommands\<close> writes the build variables and the change into the project
  directory, then takes the command block trimmed as a whole, splits it at line feeds,
  trims each line and writes it exactly once as a literal line, blank or not. With
  verbose echo on (the flag that disables it unset or false) a non-blank line is
  preceded by the notice \<^verbatim>\<open>$ <line>\<close> and a blank line by the blank-line marker; with
  verbose echo off only the literal lines are written. For the command block
  \<^verbatim>\<open>"  echo hi\n\n  ls  "\<close> with verbose echo on the lines are, in order, the notice for
  \<^verbatim>\<open>echo hi\<close>, the line \<^verbatim>\<open>echo hi\<close>, the blank-line marker, the empty line, the
  notice for \<^verbatim>\<open>ls\<close>, the line \<^verbatim>\<open>ls\<close>; with verbose echo off, the three lines alone.
\<close>

theorem command_echo:
  "GenerateCommands info =
     writeExports info
     @ [Cd (FullProjectDir (Build info))]
     @ concat (map (\<lambda>command.
           (if BoolOrDefault (DisableVerbose (Runner (Build info))) False then []
            else if command \<noteq> [] then [Notice ''$ %s'' [IString command]]
            else [EmptyLine])
           @ [Line command])
         (map TrimSpace (Split (TrimSpace (Commands (Build info))) (CHR 0x0A))))
   \<and> (Commands (Build info) = ''  echo hi'' @ [CHR 0x0A, CHR 0x0A] @ ''  ls  '' \<longrightarrow>
        \<not> BoolOrDefault (DisableVerbose (Runner (Build info))) False \<longrightarrow>
        GenerateCommands info =
          writeExports info
          @ [Cd (FullProjectDir (Build info))]
          @ [Notice ''$ %s'' [IString ''echo hi''], Line ''echo hi'',
             EmptyLine, Line [],
             Notice ''$ %s'' [IString ''ls''], Line ''ls''])
   \<and> (Commands (Build info) = ''  echo hi'' @ [CHR 0x0A, CHR 0x0A] @ ''  ls  '' \<longrightarrow>
        BoolOrDefault (DisableVerbose (Runner (Build info))) False \<longrightarrow>
        GenerateCommands info =
          writeExports info
          @ [Cd (FullProjectDir (Build info))]
          @ [Line ''echo hi'', Line [], Line ''ls''])"
proof -
  have general: "GenerateCommands info =
     writeExports info
     @ [Cd (FullProjectDir (Build info))]
     @ concat (map (\<lambda>command.
           (if BoolOrDefault (DisableVerbose (Runner (Build info))) False then []
            else if command \<noteq> [] then [Notice ''$ %s'' [IString command]]
            else [EmptyLine])
           @ [Line command])
         (map TrimSpace (Split (TrimSpace (Commands (Build info))) (CHR 0x0A))))"
    by (simp add: GenerateCommands_def writeCdBuildDir_def Let_def writeCommandLines_concat)
  show ?thesis
    by (intro conjI impI) (simp_all only: general sample_lines, simp_all)
qed

theorem command_echo_witness:
  "Commands (Build sample_info) = ''  echo hi'' @ [CHR 0x0A, CHR 0x0A] @ ''  ls  ''
   \<and> DisableVerbose (Runner (Build sample_info)) = None
   \<and> \<not> BoolOrDefault (DisableVerbose (Runner (Build sample_info))) False
   \<and> GenerateCommands sample_info =
       [Variable \<lparr>Key = ''CI'', Value = ''true'',
                   Public = True, Internal = False, File = False\<rparr>,
        Cd ''/builds/group/project'',
        Notice ''$ %s'' [IString ''echo hi''], Line ''echo hi'',
        EmptyLine, Line [],
        Notice ''$ %s'' [IString ''ls''], Line ''ls'']"
proof -
  have commands:
    "Commands (Build sample_info) = ''  echo hi'' @ [CHR 0x0A, CHR 0x0A] @ ''  ls  ''"
    by (simp add: sample_info_def sample_build_def)
  have unset: "DisableVerbose (Runner (Build sample_info)) = None"
    by (simp add: sample_info_def sample_build_def sample_runner_def)
  then have verbose: "\<not> BoolOrDefault (DisableVerbose (Runner (Build sample_info))) False"
    by (simp add: BoolOrDefault_def)
  from command_echo [of sample_info] commands verbose
  have "GenerateCommands sample_info =
          writeExports sample_info
          @ [Cd (FullProjectDir (Build sample_info))]
          @ [Notice ''$ %s'' [IString ''echo hi''], Line ''echo hi'',
             EmptyLine, Line [],
             Notice ''$ %s'' [IString ''ls''], Line ''ls'']"
    by blast
  moreover have "writeExports sample_info @ [Cd (FullProjectDir (Build sample_info))] =
      [Variable \<lparr>Key = ''CI'', Value = ''true'',
                  Public = True, Internal = False, File = False\<rparr>,
       Cd ''/builds/group/project'']"
    by (simp add: writeExports_def sample_info_def sample_build_def)
  ultimately show ?thesis
    using commands unset verbose by simp
qed

section \<open>Pre-build: artifacts of the dependencies\<close>

text \<open>
  C6. For a build whose \<open>Sha\<close> can be sliced, the output of \<^verbatim>\<open>GeneratePreBuild\<close> is
  its output for the same build without dependencies, followed by one group per
  dependency that has an artifact record with a non-empty filename, in the order of
  the list: the download helper for that dependency, the extract helper under the
  dependency's name, and the removal of the archive. A dependency without artifact
  record or with an empty filename adds nothing. With a companion executable the
  download is its invocation with \<^verbatim>\<open>artifacts --download\<close>, the URL of the runner, the
  token and the decimal ID of the dependency, and the archive path.
\<close>

theorem dependency_artifacts:
  assumes sha: "8 \<le> length (Sha (Build info))"
  shows "\<exists>pre.
    GeneratePreBuild (info\<lparr>Build := (Build info)\<lparr>DependsOnBuilds := []\<rparr>\<rparr>) = Inr pre
    \<and> GeneratePreBuild info = Inr (pre
        @ concat (map (\<lambda>d.
              downloadArtifacts (Runner (Build info)) d (RunnerCommand info)
                (Filename (the (Artifacts d)))
              @ extractFiles (RunnerCommand info) (BuildInfo.Name d)
                  (Filename (the (Artifacts d)))
              @ [RmFile (Filename (the (Artifacts d)))])
            (filter (\<lambda>d. case Artifacts d of None \<Rightarrow> False | Some a \<Rightarrow> Filename a \<noteq> [])
              (DependsOnBuilds (Build info)))))
    \<and> (RunnerCommand info \<noteq> [] \<longrightarrow>
          (\<forall>d p. downloadArtifacts (Runner (Build info)) d (RunnerCommand info) p =
             [Notice ''Downloading artifacts for %s (%d)...''
                [IString (BuildInfo.Name d), IInt (BuildInfo.ID d)],
              Command (RunnerCommand info)
                [''artifacts'', ''--download'',
                 ''--url'', URL (Runner (Build info)),
                 ''--token'', BuildInfo.Token d,
                 ''--id'', Itoa (BuildInfo.ID d),
                 ''--file'', p]]))"
proof -
  have "8 \<le> length (Sha (Build (info\<lparr>Build := (Build info)\<lparr>DependsOnBuilds := []\<rparr>\<rparr>)))"
    using sha by simp
  from GeneratePreBuild_Inr [OF this] obtain pre where
    pre: "GeneratePreBuild (info\<lparr>Build := (Build info)\<lparr>DependsOnBuilds := []\<rparr>\<rparr>) = Inr pre"
    by blast
  with GeneratePreBuild_DependsOnBuilds [OF sha] have
    "GeneratePreBuild info = Inr (pre
       @ processArtifacts (Runner (Build info)) (RunnerCommand info)
           (DependsOnBuilds (Build info)))"
    by simp
  with pre show ?thesis
    by (auto simp add: processArtifacts_concat downloadArtifacts_def)
qed

theorem dependency_artifacts_witness:
  "8 \<le> length (Sha (Build sample_info))
   \<and> RunnerCommand sample_info \<noteq> []
   \<and> (\<exists>pre.
        GeneratePreBuild (sample_info\<lparr>Build := (Build sample_info)\<lparr>DependsOnBuilds := []\<rparr>\<rparr>)
          = Inr pre
        \<and> GeneratePreBuild sample_info = Inr (pre
            @ [Notice ''Downloading artifacts for %s (%d)...'' [IString ''compile'', IInt 7],
               Command ''gitlab-runner''
                 [''artifacts'', ''--download'', ''--url'', ''https://ci.example.com/'',
                  ''--token'', ''t7'', ''--id'', ''7'', ''--file'', ''compile.zip''],
               Notice ''Restoring %s...'' [IString ''compile''],
               Command ''gitlab-runner'' [''extract'', ''--file'', ''compile.zip''],
               RmFile ''compile.zip'',
               Notice ''Downloading artifacts for %s (%d)...'' [IString ''docs'', IInt 9],
               Command ''gitlab-runner''
                 [''artifacts'', ''--download'', ''--url'', ''https://ci.example.com/'',
                  ''--token'', ''t9'', ''--id'', ''9'', ''--file'', ''docs.zip''],
               Notice ''Restoring %s...'' [IString ''docs''],
               Command ''gitlab-runner'' [''extract'', ''--file'', ''docs.zip''],
               RmFile ''docs.zip'']))"
  using dependency_artifacts [of sample_info]
  by (simp add: sample_info_def sample_build_def sample_runner_def sample_dependencies_def
      sample_Itoa extractFiles_def downloadArtifacts_def)

section \<open>The archive helper\<close>

text \<open>
  C7, as the code has it. \<^verbatim>\<open>archiveFiles\<close> writes nothing when the feature
  configuration is not a mapping. Given a mapping and an empty companion-executable
  path it writes exactly one warning. Given a mapping and a companion executable, the
  selected arguments are one \<^verbatim>\<open>--path <pattern>\<close> for each string of the list under
  \<^verbatim>\<open>paths\<close>, in order, then \<^verbatim>\<open>--untracked\<close> exactly when the value under
  \<^verbatim>\<open>untracked\<close> is the boolean true; with no selected argument it writes nothing,
  otherwise a notice followed by one invocation of the companion executable with
  \<^verbatim>\<open>archive --file <path>\<close> and the selected arguments.
\<close>

theorem archive_helper:
  "archiveFiles list runnerCommand archiveType archivePath =
     (case ToConfigMap list of
        None \<Rightarrow> []
      | Some hash \<Rightarrow>
          if runnerCommand = [] then
            [Warning ''The %s is not supported in this executor.'' [IString archiveType]]
          else
            let selected =
                  concat (map (\<lambda>p. case p of IString file \<Rightarrow> [''--path'', file] | _ \<Rightarrow> [])
                    (case index_map hash ''paths'' of ISlice paths \<Rightarrow> paths | _ \<Rightarrow> []))
                  @ (if index_map hash ''untracked'' = IBool True then [''--untracked''] else [])
            in if selected = [] then []
               else [Notice ''Archiving %s...'' [IString archiveType],
                     Command runnerCommand ([''archive'', ''--file'', archivePath] @ selected)])"
proof (cases "ToConfigMap list")
  case None
  then show ?thesis
    by (simp add: archiveFiles_def)
next
  case (Some hash)
  have paths: "(case index_map hash ''paths'' of
                  ISlice paths \<Rightarrow> collectPaths args paths
                | _ \<Rightarrow> args) =
      args @ concat (map (\<lambda>p. case p of IString file \<Rightarrow> [''--path'', file] | _ \<Rightarrow> [])
               (case index_map hash ''paths'' of ISlice paths \<Rightarrow> paths | _ \<Rightarrow> []))"
    for args
    by (cases "index_map hash ''paths''") (simp_all add: collectPaths_concat)
  have untracked: "(case index_map hash ''untracked'' of
                      IBool untracked \<Rightarrow> if untracked then args @ [''--untracked''] else args
                    | _ \<Rightarrow> args) =
      args @ (if index_map hash ''untracked'' = IBool True then [''--untracked''] else [])"
    for args
    by (cases "index_map hash ''untracked''") simp_all
  from Some show ?thesis
    by (auto simp add: archiveFiles_def Let_def paths untracked)
qed

theorem archive_helper_witness:
  "archiveFiles (IString ''dist'') ''gitlab-runner'' ''artifacts'' ''artifacts.zip'' = []
   \<and> archiveFiles (IMap [(''paths'', ISlice []), (''untracked'', IBool False)])
        ''gitlab-runner'' ''artifacts'' ''artifacts.zip'' = []
   \<and> archiveFiles (IMap [(''paths'', ISlice []), (''untracked'', IBool False)])
        [] ''artifacts'' ''artifacts.zip''
      = [Warning ''The %s is not supported in this executor.'' [IString ''artifacts'']]
   \<and> archiveFiles (IMap [(''paths'', ISlice [IString ''dist'']), (''untracked'', IBool True)])
        ''gitlab-runner'' ''artifacts'' ''artifacts.zip''
      = [Notice ''Archiving %s...'' [IString ''artifacts''],
         Command ''gitlab-runner''
           [''archive'', ''--file'', ''artifacts.zip'', ''--path'', ''dist'', ''--untracked'']]"
  using
    archive_helper [of "IString ''dist''" "''gitlab-runner''" "''artifacts''" "''artifacts.zip''"]
    archive_helper [of "IMap [(''paths'', ISlice []), (''untracked'', IBool False)]"
      "''gitlab-runner''" "''artifacts''" "''artifacts.zip''"]
    archive_helper [of "IMap [(''paths'', ISlice []), (''untracked'', IBool False)]"
      "[]" "''artifacts''" "''artifacts.zip''"]
    archive_helper [of "IMap [(''paths'', ISlice [IString ''dist'']), (''untracked'', IBool True)]"
      "''gitlab-runner''" "''artifacts''" "''artifacts.zip''"]
  by (simp add: ToConfigMap_def index_map_def)

text \<open>
  C7, as stated, fails: a mapping with an empty path list and \<^verbatim>\<open>untracked\<close> false yields
  zero effective arguments, yet with an empty companion-executable path the helper
  writes a warning.
\<close>

theorem archive_helper_counterexample:
  "archiveFiles (IMap [(''paths'', ISlice []), (''untracked'', IBool False)])
     [] ''cache'' ''cache.zip''
   = [Warning ''The %s is not supported in this executor.'' [IString ''cache'']]
   \<and> archiveFiles (IMap [(''paths'', ISlice []), (''untracked'', IBool False)])
     [] ''cache'' ''cache.zip'' \<noteq> []"
  by (simp add: archiveFiles_def ToConfigMap_def)

section \<open>Degraded helpers\<close>

text \<open>
  C8. Called with an empty companion-executable path, each of the extract, download
  and upload helpers writes exactly one warning and nothing else: no command, and no
  failure (the helpers have no failing branch at all).
\<close>

theorem helpers_without_runner_command:
  "extractFiles [] archiveType archivePath =
     [Warning ''The %s is not supported in this executor.'' [IString archiveType]]
   \<and> downloadArtifacts runner dep [] archivePath =
     [Warning ''The artifacts downloading is not supported in this executor.'' []]
   \<and> uploadArtifacts build [] archivePath =
     [Warning ''The artifacts uploading is not supported in this executor.'' []]"
  by (simp add: extractFiles_def downloadArtifacts_def uploadArtifacts_def)

section \<open>The checkout step and the length of the commit hash\<close>

text \<open>
  C9. \<^verbatim>\<open>GeneratePreBuild\<close> returns an instruction sequence only for a build whose
  \<open>Sha\<close> has at least 8 characters: with a shorter \<open>Sha\<close>, the empty one included,
  the slice of the checkout notice is out of range and the generation ends in the
  panic; with 8 characters or more it returns a sequence.
\<close>

theorem total_iff_sha:
  "(length (Sha (Build info)) < 8 \<longrightarrow> GeneratePreBuild info = Inl SliceBoundsOutOfRange)
   \<and> (8 \<le> length (Sha (Build info)) \<longrightarrow> (\<exists>prog. GeneratePreBuild info = Inr prog))"
  by (simp add: GeneratePreBuild_Inl GeneratePreBuild_Inr)

theorem total_iff_sha_witness:
  "length (Sha (Build (sample_info\<lparr>Build := sample_build\<lparr>Sha := ''0123abc''\<rparr>\<rparr>))) < 8
   \<and> GeneratePreBuild (sample_info\<lparr>Build := sample_build\<lparr>Sha := ''0123abc''\<rparr>\<rparr>)
       = Inl SliceBoundsOutOfRange
   \<and> GeneratePreBuild (sample_info\<lparr>Build := sample_build\<lparr>Sha := []\<rparr>\<rparr>)
       = Inl SliceBoundsOutOfRange
   \<and> 8 \<le> length (Sha (Build sample_info))
   \<and> (\<exists>prog. GeneratePreBuild sample_info = Inr prog)"
  using total_iff_sha [of "sample_info\<lparr>Build := sample_build\<lparr>Sha := ''0123abc''\<rparr>\<rparr>"]
    total_iff_sha [of "sample_info\<lparr>Build := sample_build\<lparr>Sha := []\<rparr>\<rparr>"]
    total_iff_sha [of sample_info]
  by (simp add: sample_info_def sample_build_def)

section \<open>Well-nested conditionals\<close>

text \<open>
  C10. Every instruction sequence that one of the three entry points produces is
  well nested: read from the left, each \<open>IfDirectory\<close> and \<open>IfFile\<close> is closed by
  its own \<open>EndIf\<close> with at most one \<open>Else\<close> in between, no \<open>Else\<close> or \<open>EndIf\<close>
  comes without an open conditional, and none is left open at the end.
\<close>

theorem entry_points_well_nested:
  "(\<forall>prog. GeneratePreBuild info = Inr prog \<longrightarrow> well_nested prog)
   \<and> well_nested (GenerateCommands info)
   \<and> well_nested (GeneratePostBuild info)"
proof (intro conjI allI impI)
  fix prog
  assume ok: "GeneratePreBuild info = Inr prog"
  have "8 \<le> length (Sha (Build info))"
  proof (rule ccontr)
    assume "\<not> 8 \<le> length (Sha (Build info))"
    then have "GeneratePreBuild info = Inl SliceBoundsOutOfRange"
      by (simp add: GeneratePreBuild_Inl)
    with ok show False by simp
  qed
  from GeneratePreBuild_Inr [OF this] ok show "well_nested prog"
    by (auto simp add: well_nested_def scan_segments)
next
  show "well_nested (GenerateCommands info)"
    by (simp add: well_nested_def GenerateCommands_def Let_def scan_segments)
next
  show "well_nested (GeneratePostBuild info)"
    by (simp add: well_nested_def GeneratePostBuild_def Let_def scan_segments)
qed

theorem entry_points_well_nested_witness:
  "(\<exists>prog. GeneratePreBuild sample_info = Inr prog \<and> well_nested prog)
   \<and> well_nested (GenerateCommands sample_info)
   \<and> well_nested (GeneratePostBuild sample_info)"
  using entry_points_well_nested [of sample_info] GeneratePreBuild_Inr [of sample_info]
  by (simp add: sample_info_def sample_build_def)

end
